theory Spec2Isabelle
  imports Main
begin

section \<open>JavaScript values used by the middleware\<close>

text \<open>
  The middleware of \<^verbatim>\<open>connect-dyncache\<close> attaches caching helpers to the response
  object of every request. The embedding follows the fuller of the two source files (the one
  with the file watch cache); the older \<^verbatim>\<open>index.js\<close> holds the same \<^verbatim>\<open>autoEtag\<close>
  with one statement placed differently, and is embedded beside it where a property is about
  both.

  A JavaScript \<^verbatim>\<open>Date\<close> holds a time value: a number of milliseconds, or \<^verbatim>\<open>NaN\<close>
  (an \<^emph>\<open>Invalid Date\<close>). A value that may be \<^verbatim>\<open>undefined\<close> is an option.
\<close>

type_synonym jsdate = "int option"

text \<open>Truthiness of a string that may be undefined: the empty string is falsy.\<close>

fun truthy :: "string option \<Rightarrow> bool" where
  "truthy None = False"
| "truthy (Some s) = (s \<noteq> [])"

text \<open>Every object is truthy, an Invalid Date too.\<close>

definition truthy_Date :: "jsdate \<Rightarrow> bool" where
  "truthy_Date d = True"

text \<open>
  \<^verbatim>\<open>a <= b\<close> on two dates compares their time values; a comparison with \<^verbatim>\<open>NaN\<close>
  is false.
\<close>

fun date_le :: "jsdate \<Rightarrow> jsdate \<Rightarrow> bool" where
  "date_le (Some a) (Some b) = (a \<le> b)"
| "date_le _ _ = False"

text \<open>\<^verbatim>\<open>new Date(n)\<close> for a number: the time value, clipped to the range of a Date.\<close>

definition Date_of_number :: "int \<Rightarrow> jsdate" where
  "Date_of_number n = (if \<bar>n\<bar> \<le> 8640000000000000 then Some n else None)"

text \<open>
  \<^verbatim>\<open>Number.prototype.toString\<close> on an integer (the decimal numeral; the exponent form
  that JavaScript switches to from \<^verbatim>\<open>1e21\<close> on is outside the ages a cache uses).
\<close>

definition digit :: "nat \<Rightarrow> char" where
  "digit n = ''0123456789'' ! (n mod 10)"

fun nat_digits :: "nat \<Rightarrow> string" where
  "nat_digits n = (if n < 10 then [digit n] else nat_digits (n div 10) @ [digit n])"

declare nat_digits.simps [simp del]

definition Number_toString :: "int \<Rightarrow> string" where
  "Number_toString i = (if i < 0 then CHR ''-'' # nat_digits (nat (- i)) else nat_digits (nat i))"

text \<open>\<^verbatim>\<open>Array.prototype.join\<close> on an array of strings.\<close>

fun join :: "string \<Rightarrow> string list \<Rightarrow> string" where
  "join sep [] = []"
| "join sep [x] = x"
| "join sep (x # y # ys) = x @ sep @ join sep (y # ys)"

section \<open>The environment: clock, filesystem, library functions\<close>

text \<open>
  What the code receives from Node and does not compute itself: the wall clock (the
  successive readings of \<^verbatim>\<open>new Date()\<close>), the filesystem, MD5 with hex output, the JSON
  text of a stat result, date parsing and date printing.
\<close>

record stats =
  mtime :: int
  size :: nat

record env =
  clock :: "nat \<Rightarrow> int"
  fs :: "string \<rightharpoonup> stats"
  md5hex :: "string \<Rightarrow> string"
  stringify :: "stats \<Rightarrow> string"
  parseDate :: "string \<Rightarrow> int option"
  toString :: "int \<Rightarrow> string"
  toUTCString :: "int \<Rightarrow> string"

text \<open>\<^verbatim>\<open>new Date(x)\<close> for a header value: \<^verbatim>\<open>undefined\<close> gives an Invalid Date.\<close>

fun Date_of_string :: "env \<Rightarrow> string option \<Rightarrow> jsdate" where
  "Date_of_string e None = None"
| "Date_of_string e (Some s) = parseDate e s"

fun Date_toString :: "env \<Rightarrow> jsdate \<Rightarrow> string" where
  "Date_toString e None = ''Invalid Date''"
| "Date_toString e (Some t) = toString e t"

fun Date_toUTCString :: "env \<Rightarrow> jsdate \<Rightarrow> string" where
  "Date_toUTCString e None = ''Invalid Date''"
| "Date_toUTCString e (Some t) = toUTCString e t"

datatype error = TypeError | HashFinalized | ENOENT

section \<open>Request and response\<close>

record request =
  if_none_match :: "string option"
  if_modified_since :: "string option"

text \<open>
  The MD5 object of \<^verbatim>\<open>crypto.createHash\<close>: the bytes fed so far, or finalized by
  \<^verbatim>\<open>digest\<close>, after which \<^verbatim>\<open>update\<close> throws.
\<close>

datatype md5 = Open string | Digested

fun hash_update :: "md5 \<Rightarrow> string option \<Rightarrow> error + md5" where
  "hash_update (Open acc) (Some d) = Inr (Open (acc @ d))"
| "hash_update (Open acc) None = Inl TypeError"
| "hash_update Digested d = Inl HashFinalized"

fun hash_digest :: "env \<Rightarrow> md5 \<Rightarrow> error + string" where
  "hash_digest e (Open acc) = Inr (md5hex e acc)"
| "hash_digest e Digested = Inl HashFinalized"

text \<open>
  The variables that one call of \<^verbatim>\<open>autoEtag\<close> closes over: \<^verbatim>\<open>etag\<close>,
  \<^verbatim>\<open>lastModified\<close>, \<^verbatim>\<open>hash\<close> (\<^verbatim>\<open>null\<close> is \<open>None\<close>) and \<^verbatim>\<open>endCalled\<close>.
\<close>

record closure =
  c_etag :: "string option"
  c_lastModified :: "string option"
  c_hash :: "md5 option"
  c_endCalled :: bool

text \<open>What reaches the response's original \<^verbatim>\<open>write\<close>, \<^verbatim>\<open>end\<close> and \<^verbatim>\<open>send\<close>.\<close>

datatype call = Write "string option" | End "string option" | Send string

text \<open>
  The response object: its header fields (by lower-case name, as Node keeps them), its status
  code, the fields \<^verbatim>\<open>_autoEtagSet\<close> and \<^verbatim>\<open>_dynMaxAge\<close>, the wrappers that
  \<^verbatim>\<open>autoEtag\<close> has put around \<^verbatim>\<open>write\<close> and \<^verbatim>\<open>end\<close> (the outermost first), and
  the calls that reached the original methods.
\<close>

record response =
  headers :: "string \<rightharpoonup> string"
  statusCode :: nat
  autoEtagSet :: bool
  dynMaxAge :: int
  hooks :: "closure list"
  wire :: "call list"

definition setHeader :: "string \<Rightarrow> string \<Rightarrow> response \<Rightarrow> response" where
  "setHeader name v r = r\<lparr>headers := (headers r)(name \<mapsto> v)\<rparr>"

definition status :: "nat \<Rightarrow> response \<Rightarrow> response" where
  "status code r = r\<lparr>statusCode := code\<rparr>"

definition send :: "string \<Rightarrow> response \<Rightarrow> response" where
  "send body r = r\<lparr>wire := wire r @ [Send body]\<rparr>"

section \<open>Cache-Control composer\<close>

definition setMaxAge :: "int \<Rightarrow> response \<Rightarrow> response" where
  "setMaxAge age r = r\<lparr>dynMaxAge := age\<rparr>"

text \<open>
  \<^verbatim>\<open>res.setExpires(date)\<close>. The argument is a Date or is left out, and
  \<^verbatim>\<open>new Date(date)\<close> is a Date object either way (an Invalid Date for
  \<^verbatim>\<open>undefined\<close>). \<open>now\<close> is what \<^verbatim>\<open>(new Date()).getTime()\<close> gives where the
  code reads it.
\<close>

definition setExpires :: "env \<Rightarrow> int \<Rightarrow> jsdate option \<Rightarrow> response \<Rightarrow> response" where
  "setExpires e now date r =
    (let d0 = (case date of None \<Rightarrow> None | Some d \<Rightarrow> d);
         d = (if truthy_Date d0 then d0 else Date_of_number (now + dynMaxAge r))
     in setHeader ''expires'' (Date_toUTCString e d) r)"

text \<open>
  \<^verbatim>\<open>res.setCacheControl(age, keywords)\<close>. Both arguments may be left out. The result
  holds the caller's array after the call (\<open>None\<close> when no array was passed), since
  \<^verbatim>\<open>push\<close> changes it in place.
\<close>

definition setCacheControl ::
  "int option \<Rightarrow> string list option \<Rightarrow> response \<Rightarrow> string list option \<times> response" where
  "setCacheControl age keywords r =
    (let kw = (case keywords of Some k \<Rightarrow> k | None \<Rightarrow> [''public'']);
         a = (case age of
                Some n \<Rightarrow> if n \<noteq> 0 then n else dynMaxAge r
              | None \<Rightarrow> dynMaxAge r);
         kw' = kw @ [''max-age='' @ Number_toString a];
         str = join '', '' kw'
     in (map_option (\<lambda>_. kw') keywords, setHeader ''cache-control'' str r))"

section \<open>Auto-negotiation: the wrappers around write and end\<close>

text \<open>
  \<^verbatim>\<open>res.autoEtag()\<close>: guarded by \<^verbatim>\<open>_autoEtagSet\<close>, it reads the two validators
  from the response headers, creates the MD5 object unless one of them is set, and wraps
  \<^verbatim>\<open>res.write\<close> and \<^verbatim>\<open>res.end\<close>; the previous methods stay underneath.
\<close>

definition autoEtag :: "response \<Rightarrow> response" where
  "autoEtag r =
    (if autoEtagSet r then r
     else
       let etag = headers r ''etag'';
           lastModified = headers r ''last-modified'';
           hash = (if truthy etag \<or> truthy lastModified then None else Some (Open []))
       in r\<lparr>hooks := \<lparr>c_etag = etag, c_lastModified = lastModified, c_hash = hash,
                         c_endCalled = False\<rparr> # hooks r,
             autoEtagSet := True\<rparr>)"

text \<open>The body of one \<^verbatim>\<open>write\<close> wrapper, before it hands over to \<^verbatim>\<open>oldWrite\<close>.\<close>

definition write_hook :: "closure \<Rightarrow> string option \<Rightarrow> error + closure" where
  "write_hook c data =
    (case c_hash c of
       None \<Rightarrow> Inr c
     | Some h \<Rightarrow>
         (case hash_update h data of
            Inl err \<Rightarrow> Inl err
          | Inr h' \<Rightarrow> Inr (c\<lparr>c_hash := Some h'\<rparr>)))"

fun write_from :: "closure list \<Rightarrow> string option \<Rightarrow> error + closure list" where
  "write_from [] data = Inr []"
| "write_from (c # cs) data =
    (case write_hook c data of
       Inl err \<Rightarrow> Inl err
     | Inr c' \<Rightarrow>
         (case write_from cs data of
            Inl err \<Rightarrow> Inl err
          | Inr cs' \<Rightarrow> Inr (c' # cs')))"

text \<open>\<^verbatim>\<open>res.write(data)\<close> as the handler calls it: through the wrappers to the original.\<close>

definition res_write :: "string option \<Rightarrow> response \<Rightarrow> error + response" where
  "res_write data r =
    (case write_from (hooks r) data of
       Inl err \<Rightarrow> Inl err
     | Inr cs \<Rightarrow> Inr (r\<lparr>hooks := cs, wire := wire r @ [Write data]\<rparr>))"

fun res_writes :: "string option list \<Rightarrow> response \<Rightarrow> error + response" where
  "res_writes [] r = Inr r"
| "res_writes (d # ds) r =
    (case res_write d r of
       Inl err \<Rightarrow> Inl err
     | Inr r' \<Rightarrow> res_writes ds r')"

definition cache_control_304 :: string where
  "cache_control_304 = ''private, must-revalidate, max-age=0, post-check=0, pre-check=0''"

text \<open>The test of the last-modified branch of \<^verbatim>\<open>end\<close>, on the closure's value.\<close>

definition lastModified_matches :: "env \<Rightarrow> request \<Rightarrow> string option \<Rightarrow> bool" where
  "lastModified_matches e req lastModified =
    (truthy lastModified \<and>
      (let lm = Date_of_string e lastModified;
           ifModSince = Date_of_string e (if_modified_since req)
       in truthy (if_modified_since req) \<and> date_le lm ifModSince))"

text \<open>
  The body of one \<^verbatim>\<open>end\<close> wrapper that has not run yet. It returns the closure and the
  response as it leaves them, and whether it answered 304 itself (\<open>True\<close>) or goes on to
  \<^verbatim>\<open>oldEnd\<close> with the same arguments (\<open>False\<close>). \<^verbatim>\<open>res.send\<close> belongs to the
  framework; it ends the response through \<^verbatim>\<open>res.end\<close>, whose wrapper has
  \<^verbatim>\<open>endCalled\<close> set by then.
\<close>

definition end_hook ::
  "env \<Rightarrow> request \<Rightarrow> closure \<Rightarrow> string option \<Rightarrow> response \<Rightarrow>
     error + (closure \<times> response \<times> bool)" where
  "end_hook e req c data r =
    (let c1 = c\<lparr>c_endCalled := True\<rparr>;
         hashed =
           (case c_hash c1 of
              Some h \<Rightarrow>
                if truthy data then
                  (case hash_update h data of
                     Inl err \<Rightarrow> Inl err
                   | Inr h' \<Rightarrow>
                       (case hash_digest e h' of
                          Inl err \<Rightarrow> Inl err
                        | Inr etag \<Rightarrow>
                            Inr (c1\<lparr>c_hash := Some Digested, c_etag := Some etag\<rparr>,
                                 setHeader ''etag'' etag r)))
                else Inr (c1, r)
            | None \<Rightarrow> Inr (c1, r))
     in case hashed of
          Inl err \<Rightarrow> Inl err
        | Inr (c2, r2) \<Rightarrow>
            if truthy (c_etag c2) \<and> if_none_match req = c_etag c2 then
              Inr (c2, send ''Cached'' (status 304 (setHeader ''cache-control'' cache_control_304 r2)),
                   True)
            else if lastModified_matches e req (c_lastModified c2) then
              Inr (c2, send ''Cached'' (status 304 (setHeader ''cache-control'' cache_control_304 r2)),
                   True)
            else Inr (c2, r2, False))"

text \<open>
  The same wrapper in \<^verbatim>\<open>index.js\<close>: the Cache-Control header is set before the two
  checks, on every first \<^verbatim>\<open>end\<close>, and the status goes with \<^verbatim>\<open>send\<close>.
\<close>

definition end_hook_index ::
  "env \<Rightarrow> request \<Rightarrow> closure \<Rightarrow> string option \<Rightarrow> response \<Rightarrow>
     error + (closure \<times> response \<times> bool)" where
  "end_hook_index e req c data r =
    (let c1 = c\<lparr>c_endCalled := True\<rparr>;
         hashed =
           (case c_hash c1 of
              Some h \<Rightarrow>
                if truthy data then
                  (case hash_update h data of
                     Inl err \<Rightarrow> Inl err
                   | Inr h' \<Rightarrow>
                       (case hash_digest e h' of
                          Inl err \<Rightarrow> Inl err
                        | Inr etag \<Rightarrow>
                            Inr (c1\<lparr>c_hash := Some Digested, c_etag := Some etag\<rparr>,
                                 setHeader ''etag'' etag r)))
                else Inr (c1, r)
            | None \<Rightarrow> Inr (c1, r))
     in case hashed of
          Inl err \<Rightarrow> Inl err
        | Inr (c2, r2) \<Rightarrow>
            (let r3 = setHeader ''cache-control'' cache_control_304 r2 in
             if truthy (c_etag c2) \<and> if_none_match req = c_etag c2 then
               Inr (c2, send ''Cached'' (status 304 r3), True)
             else if lastModified_matches e req (c_lastModified c2) then
               Inr (c2, send ''Cached'' (status 304 r3), True)
             else Inr (c2, r3, False)))"

text \<open>
  \<^verbatim>\<open>res.end(data)\<close> through the wrappers: one that has run already hands over to the
  method underneath, as does one that found no match; the innermost is the original
  \<^verbatim>\<open>end\<close>. The first argument is the wrapper's body, that of either source file.
\<close>

fun end_from ::
  "(closure \<Rightarrow> string option \<Rightarrow> response \<Rightarrow> error + (closure \<times> response \<times> bool)) \<Rightarrow>
     closure list \<Rightarrow> string option \<Rightarrow> response \<Rightarrow> error + (closure list \<times> response)" where
  "end_from hook [] data r = Inr ([], r\<lparr>wire := wire r @ [End data]\<rparr>)"
| "end_from hook (c # cs) data r =
    (if c_endCalled c then
       (case end_from hook cs data r of
          Inl err \<Rightarrow> Inl err
        | Inr (cs', r') \<Rightarrow> Inr (c # cs', r'))
     else
       (case hook c data r of
          Inl err \<Rightarrow> Inl err
        | Inr (c', r', answered) \<Rightarrow>
            if answered then Inr (c' # cs, r')
            else
              (case end_from hook cs data r' of
                 Inl err \<Rightarrow> Inl err
               | Inr (cs', r'') \<Rightarrow> Inr (c' # cs', r''))))"

definition res_end :: "env \<Rightarrow> request \<Rightarrow> string option \<Rightarrow> response \<Rightarrow> error + response" where
  "res_end e req data r =
    (case end_from (end_hook e req) (hooks r) data r of
       Inl err \<Rightarrow> Inl err
     | Inr (cs, r') \<Rightarrow> Inr (r'\<lparr>hooks := cs\<rparr>))"

definition res_end_index ::
  "env \<Rightarrow> request \<Rightarrow> string option \<Rightarrow> response \<Rightarrow> error + response" where
  "res_end_index e req data r =
    (case end_from (end_hook_index e req) (hooks r) data r of
       Inl err \<Rightarrow> Inl err
     | Inr (cs, r') \<Rightarrow> Inr (r'\<lparr>hooks := cs\<rparr>))"

section \<open>Explicit validators\<close>

text \<open>\<^verbatim>\<open>res.setEtag(etag)\<close>: true when the request's If-None-Match is that ETag.\<close>

definition setEtag :: "request \<Rightarrow> string \<Rightarrow> response \<Rightarrow> bool \<times> response" where
  "setEtag req etag r =
    (let r1 = setHeader ''etag'' etag r;
         r2 = autoEtag r1
     in if etag \<noteq> [] \<and> if_none_match req = Some etag then (True, r2) else (False, r2))"

text \<open>
  \<^verbatim>\<open>res.setLastModifiedDate(date)\<close>. The test \<^verbatim>\<open>ifModSince && ...\<close> is on a Date
  object, which is truthy whatever it holds.
\<close>

definition setLastModifiedDate :: "env \<Rightarrow> request \<Rightarrow> jsdate \<Rightarrow> response \<Rightarrow> bool \<times> response" where
  "setLastModifiedDate e req date r =
    (let r1 = setHeader ''last-modified'' (Date_toString e date) r;
         r2 = autoEtag r1;
         ifModSince = Date_of_string e (if_modified_since req)
     in if truthy_Date ifModSince \<and> date_le date ifModSince then (False, r2) else (True, r2))"

section \<open>The file watch cache\<close>

text \<open>
  An entry of \<^verbatim>\<open>__watchFiles\<close>. The cache is a plain object used as a dictionary by path;
  the embedding keeps its own properties (a path that names a member of
  \<^verbatim>\<open>Object.prototype\<close> is not treated).
\<close>

record entry =
  changed :: int
  etag :: string
  modified :: int
  expires :: int

text \<open>Console lines and filesystem reads, in the order they happen.\<close>

datatype io = Log_Adding string | Log_Statistics bool bool | LstatSync string

text \<open>
  The state that the watch functions work on: the module's \<^verbatim>\<open>__watchFiles\<close>, the
  response of the request at hand, the number of clock readings made so far, and the trace.
\<close>

record state =
  watchFiles :: "string \<rightharpoonup> entry"
  res :: response
  ticks :: nat
  trace :: "io list"

definition existsSync :: "env \<Rightarrow> string \<Rightarrow> bool" where
  "existsSync e file = (fs e file \<noteq> None)"

definition lstatSync :: "env \<Rightarrow> string \<Rightarrow> error + stats" where
  "lstatSync e file = (case fs e file of None \<Rightarrow> Inl ENOENT | Some st \<Rightarrow> Inr st)"

text \<open>
  \<^verbatim>\<open>res.watchFile(file)\<close>: \<open>None\<close> is the \<^verbatim>\<open>false\<close> it returns for a missing file,
  \<open>Some\<close> the object with the entry and the stat result.
\<close>

definition watchFile :: "env \<Rightarrow> string \<Rightarrow> state \<Rightarrow> error + ((entry \<times> stats) option \<times> state)" where
  "watchFile e file s =
    (if existsSync e file then
       (let s1 = s\<lparr>trace := trace s @ [Log_Adding file]\<rparr>;
            now = clock e (ticks s1);
            s2 = s1\<lparr>ticks := Suc (ticks s1), trace := trace s1 @ [LstatSync file]\<rparr>
        in case lstatSync e file of
             Inl err \<Rightarrow> Inl err
           | Inr st \<Rightarrow>
               (let obj = \<lparr>changed = now,
                           etag = md5hex e (stringify e st),
                           modified = mtime st,
                           expires = mtime st + dynMaxAge (res s2)\<rparr>
                in Inr (Some (obj, st), s2\<lparr>watchFiles := (watchFiles s2)(file \<mapsto> obj)\<rparr>)))
     else Inr (None, s))"

definition isWatching :: "string \<Rightarrow> state \<Rightarrow> bool" where
  "isWatching file s = (file \<in> dom (watchFiles s))"

definition unwatchFile :: "string \<Rightarrow> state \<Rightarrow> state" where
  "unwatchFile file s =
    (if file \<in> dom (watchFiles s) then s\<lparr>watchFiles := (watchFiles s)(file := None)\<rparr> else s)"

text \<open>
  \<^verbatim>\<open>res.isChanged(file, force)\<close>. The function calls itself after a refresh, and nothing
  in it bounds how often: \<open>None\<close> is a call that does not come back (in Node the stack runs
  out), \<open>Some (Inl err)\<close> one that throws, \<open>Some (Inr (b, s))\<close> one that returns \<open>b\<close>.
\<close>

partial_function (option) isChanged ::
  "env \<Rightarrow> request \<Rightarrow> string \<Rightarrow> bool \<Rightarrow> state \<Rightarrow> (error + bool \<times> state) option" where
  "isChanged e req file force s =
    (if isWatching file s then
       (case watchFiles s file of
          None \<Rightarrow> Some (Inl TypeError)
        | Some obj \<Rightarrow>
            (let now = clock e (ticks s);
                 s1 = s\<lparr>ticks := Suc (ticks s)\<rparr>
             in if force \<or> now > expires obj then
                  (case watchFile e file (s1\<lparr>watchFiles := (watchFiles s1)(file := None)\<rparr>) of
                     Inl err \<Rightarrow> Some (Inl err)
                   | Inr (w, s2) \<Rightarrow> isChanged e req file False s2)
                else
                  (let (isEtagged, r1) = setEtag req (etag obj) (res s1);
                       (isModified, r2) =
                          setLastModifiedDate e req (Date_of_number (modified obj)) r1;
                       s3 = s1\<lparr>res := r2,
                               trace := trace s1 @ [Log_Statistics isEtagged isModified]\<rparr>
                   in if isModified = False \<and> isEtagged then Some (Inr (False, s3))
                      else Some (Inr (True, s3)))))
     else Some (Inr (True, s)))"

section \<open>A request to try the functions on\<close>

text \<open>
  The response as the middleware hands it to the handler (\<^verbatim>\<open>res._dynMaxAge = 0\<close>, nothing
  wrapped yet), and the watch cache as the module creates it.
\<close>

definition new_response :: response where
  "new_response =
    \<lparr>headers = Map.empty, statusCode = 200, autoEtagSet = False, dynMaxAge = 0,
     hooks = [], wire = []\<rparr>"

definition new_state :: state where
  "new_state = \<lparr>watchFiles = Map.empty, res = new_response, ticks = 0, trace = []\<rparr>"

text \<open>
  An environment: the clock reads 5000 ms and a millisecond more at each reading, the only
  file is \<^verbatim>\<open>/tmp/f\<close>, last modified at 0 ms, and one date string parses. The functions
  standing for MD5, JSON and date printing are stand-ins; no property below depends on them.
\<close>

definition example_env :: env where
  "example_env =
    \<lparr>clock = (\<lambda>n. 5000 + int n),
     fs = [''/tmp/f'' \<mapsto> \<lparr>mtime = 0, size = 3\<rparr>],
     md5hex = (\<lambda>s. ''h'' @ s),
     stringify = (\<lambda>st. Number_toString (mtime st)),
     parseDate = (\<lambda>s. if s = ''Thu, 01 Jan 1970 00:00:10 GMT'' then Some 10000 else None),
     toString = (\<lambda>t. ''t'' @ Number_toString t),
     toUTCString = (\<lambda>t. ''u'' @ Number_toString t)\<rparr>"

definition example_request :: request where
  "example_request =
    \<lparr>if_none_match = Some ''h0'',
     if_modified_since = Some ''Thu, 01 Jan 1970 00:00:10 GMT''\<rparr>"

text \<open>
  The state after \<^verbatim>\<open>res.setMaxAge(age); res.watchFile("/tmp/f")\<close> on a new request,
  as the repository's example route does before it asks \<^verbatim>\<open>isChanged\<close>.
\<close>

definition watched :: "int \<Rightarrow> state" where
  "watched age =
    (case watchFile example_env ''/tmp/f'' (new_state\<lparr>res := setMaxAge age new_response\<rparr>) of
       Inl err \<Rightarrow> new_state
     | Inr (w, s) \<Rightarrow> s)"

text \<open>
  An entry that is due for a refresh, of a file whose modification time plus the max-age lies
  behind every reading the clock will give from now on.
\<close>

definition stale :: "env \<Rightarrow> string \<Rightarrow> bool \<Rightarrow> state \<Rightarrow> bool" where
  "stale e file force s =
    (case (watchFiles s file, fs e file) of
       (Some obj, Some st) \<Rightarrow>
          (force \<or> expires obj < clock e (ticks s)) \<and>
          (\<forall>n\<ge>ticks s. mtime st + dynMaxAge (res s) < clock e n)
     | _ \<Rightarrow> False)"

section \<open>Auxiliary facts\<close>

lemma Number_toString_0: "Number_toString 0 = ''0''"
  by (simp add: Number_toString_def nat_digits.simps digit_def)

lemma Number_toString_5000: "Number_toString 5000 = ''5000''"
  by (simp add: Number_toString_def nat_digits.simps digit_def)

lemma headers_autoEtag: "headers (autoEtag r) = headers r"
  by (simp add: autoEtag_def Let_def)

lemma watched_eq:
  "watched age =
    \<lparr>watchFiles = [''/tmp/f'' \<mapsto> \<lparr>changed = 5000, etag = ''h0'', modified = 0, expires = age\<rparr>],
     res = new_response\<lparr>dynMaxAge := age\<rparr>,
     ticks = 1,
     trace = [Log_Adding ''/tmp/f'', LstatSync ''/tmp/f'']\<rparr>"
  by (simp add: watched_def watchFile_def existsSync_def lstatSync_def example_env_def
      new_state_def setMaxAge_def Number_toString_0 Let_def)

lemma stale_refresh:
  assumes "stale e p force s"
  shows "\<exists>w s2.
           watchFile e p (s\<lparr>ticks := Suc (ticks s), watchFiles := (watchFiles s)(p := None)\<rparr>) =
             Inr (w, s2) \<and>
           stale e p False s2"
  using assms
  by (auto simp: stale_def watchFile_def existsSync_def lstatSync_def Let_def
      split: option.splits)

lemma isChanged_stale_no_value:
  assumes "isChanged e req p force s = Some y"
  shows "\<not> stale e p force s"
proof (rule isChanged.raw_induct
    [where P = "\<lambda>e req p force s y. \<not> stale e p force s", OF _ assms], goal_cases)
  case (1 f e req p force s y)
  show ?case
  proof
    assume a: "stale e p force s"
    then obtain obj where w: "watchFiles s p = Some obj"
      and x: "force \<or> expires obj < clock e (ticks s)"
      by (auto simp: stale_def split: option.splits)
    from stale_refresh[OF a] obtain w' s2 where
      r: "watchFile e p (s\<lparr>ticks := Suc (ticks s), watchFiles := (watchFiles s)(p := None)\<rparr>) =
            Inr (w', s2)"
      and st: "stale e p False s2"
      by blast
    from w have d: "p \<in> dom (watchFiles s)"
      by blast
    from 1(2) have "f e req p False s2 = Some y"
      by (simp add: isWatching_def Let_def d w x r)
    from 1(1)[OF this] st show False
      by blast
  qed
qed

lemma isChanged_stale_None: "stale e p force s \<Longrightarrow> isChanged e req p force s = None"
  using isChanged_stale_no_value by (cases "isChanged e req p force s") auto

lemma stale_watched_1000: "stale example_env ''/tmp/f'' force (watched 1000)"
  by (simp add: stale_def watched_eq example_env_def new_response_def)

lemma res_writes_open:
  assumes "hooks r = [c]" and "c_hash c = Some (Open acc)"
  shows "res_writes (map Some chunks) r =
           Inr (r\<lparr>hooks := [c\<lparr>c_hash := Some (Open (acc @ concat chunks))\<rparr>],
                  wire := wire r @ map (Write \<circ> Some) chunks\<rparr>)"
  using assms
proof (induction chunks arbitrary: r c acc)
  case Nil
  then show ?case by simp
next
  case (Cons x xs)
  let ?c = "c\<lparr>c_hash := Some (Open (acc @ x))\<rparr>"
  let ?r = "r\<lparr>hooks := [?c], wire := wire r @ [Write (Some x)]\<rparr>"
  have w: "res_write (Some x) r = Inr ?r"
    using Cons.prems by (simp add: res_write_def write_hook_def)
  show ?case
    using Cons.IH[of ?r ?c "acc @ x"] by (simp add: w)
qed

section \<open>The claims\<close>

subsection \<open>Verdict of isChanged\<close>

text \<open>
  Claim C1. For every path, \<^verbatim>\<open>isChanged\<close> returns true when the path is not watched.
  When it is watched, its entry has not expired and no refresh is forced, the call returns,
  and it returns false exactly when the Last-Modified comparison reports no change (the
  entry's modification date is at most the date of If-Modified-Since) and the stored ETag
  matches the request's If-None-Match (it is that header's value, and not empty); otherwise
  it returns true.
\<close>

theorem isChanged_verdict:
  "(\<not> isWatching p s \<longrightarrow> isChanged e req p force s = Some (Inr (True, s))) \<and>
   (watchFiles s p = Some obj \<and> \<not> expires obj < clock e (ticks s) \<longrightarrow>
      (\<exists>s'. isChanged e req p False s =
         Some (Inr (\<not> (date_le (Date_of_number (modified obj))
                            (Date_of_string e (if_modified_since req)) \<and>
                        etag obj \<noteq> [] \<and> if_none_match req = Some (etag obj)), s'))))"
proof (intro conjI impI)
  assume "\<not> isWatching p s"
  then show "isChanged e req p force s = Some (Inr (True, s))"
    by (subst isChanged.simps) simp
next
  assume a: "watchFiles s p = Some obj \<and> \<not> expires obj < clock e (ticks s)"
  then have d: "isWatching p s"
    by (auto simp: isWatching_def)
  show "\<exists>s'. isChanged e req p False s =
         Some (Inr (\<not> (date_le (Date_of_number (modified obj))
                            (Date_of_string e (if_modified_since req)) \<and>
                        etag obj \<noteq> [] \<and> if_none_match req = Some (etag obj)), s'))"
    using a d
    by (subst isChanged.simps)
       (auto simp: Let_def setEtag_def setLastModifiedDate_def truthy_Date_def
          split: prod.splits)
qed

text \<open>
  The example route: max-age one minute, the file watched, the request's validators those of
  the entry. The unwatched path is changed, the watched file is not.
\<close>

theorem isChanged_verdict_witness:
  "isChanged example_env example_request ''/tmp/other'' False (watched 60000) =
     Some (Inr (True, watched 60000)) \<and>
   (\<exists>s'. isChanged example_env example_request ''/tmp/f'' False (watched 60000) =
     Some (Inr (False, s')))"
  using isChanged_verdict
      [where p = "''/tmp/other''" and s = "watched 60000" and e = example_env
         and req = example_request and force = False
         and obj = "\<lparr>changed = 5000, etag = ''h0'', modified = 0, expires = 60000\<rparr>"]
    isChanged_verdict
      [where p = "''/tmp/f''" and s = "watched 60000" and e = example_env
         and req = example_request and force = False
         and obj = "\<lparr>changed = 5000, etag = ''h0'', modified = 0, expires = 60000\<rparr>"]
  by (simp add: watched_eq isWatching_def example_env_def example_request_def
      Date_of_number_def)

subsection \<open>Return value of setLastModifiedDate\<close>

text \<open>
  Claim C2, as the code has it. For every date, \<^verbatim>\<open>setLastModifiedDate\<close> sets the
  Last-Modified header to the date's string, and it returns false exactly when the date is at
  most the date of the request's If-Modified-Since (both being valid dates), true otherwise:
  it is the false return that tells the caller it may short-circuit.
\<close>

theorem setLastModifiedDate_result:
  "headers (snd (setLastModifiedDate e req d r)) ''last-modified'' = Some (Date_toString e d) \<and>
   fst (setLastModifiedDate e req d r) =
     (\<not> date_le d (Date_of_string e (if_modified_since req)))"
  by (simp add: setLastModifiedDate_def Let_def headers_autoEtag setHeader_def truthy_Date_def)

text \<open>
  Claim C2 as stated fails: a resource last modified at 1000 ms, asked for with an
  If-Modified-Since of 10000 ms, is unchanged, and the function returns false.
\<close>

theorem setLastModifiedDate_counterexample:
  "date_le (Some 1000) (Date_of_string example_env (if_modified_since example_request)) \<and>
   fst (setLastModifiedDate example_env example_request (Some 1000) new_response) = False"
  by (simp add: setLastModifiedDate_def Let_def example_env_def example_request_def
      truthy_Date_def)

subsection \<open>The recursion of isChanged\<close>

text \<open>
  Claim C3 says that a call of \<^verbatim>\<open>isChanged\<close> on an expired entry re-stats the file once
  and recurses once, for any max-age other than zero. The code does not: the refreshed entry
  expires at the file's modification time plus the max-age, so for a file older than the
  max-age it is expired again, and the call refreshes without end. With a max-age of 1000 ms
  and the file of the example environment, watched and then asked for, the call never
  returns.
\<close>

theorem isChanged_never_returns:
  "dynMaxAge (res (watched 1000)) = 1000 \<and>
   isWatching ''/tmp/f'' (watched 1000) \<and>
   isChanged example_env example_request ''/tmp/f'' False (watched 1000) = None"
  using isChanged_stale_None[OF stale_watched_1000, of example_request False]
  by (simp add: watched_eq isWatching_def)

subsection \<open>Result of watchFile\<close>

text \<open>
  Claim C4, as the code has it. For every path that does not exist, \<^verbatim>\<open>watchFile\<close>
  returns its failure value without throwing and leaves the state, the watch cache with it,
  as it was (so it adds no entry, and an entry that was there stays). For every path that
  exists it returns the new entry with the stat result, and the cache holds that entry for the
  path, with the modification time from the stat and the expiry at the modification time plus
  the max-age set at that moment.
\<close>

theorem watchFile_result:
  "(fs e p = None \<longrightarrow> watchFile e p s = Inr (None, s)) \<and>
   (fs e p = Some st \<longrightarrow>
      (\<exists>obj s'. watchFile e p s = Inr (Some (obj, st), s') \<and>
         watchFiles s' = (watchFiles s)(p \<mapsto> obj) \<and>
         modified obj = mtime st \<and>
         expires obj = mtime st + dynMaxAge (res s)))"
  by (simp add: watchFile_def existsSync_def lstatSync_def Let_def)

theorem watchFile_result_witness:
  "watchFile example_env ''/tmp/other'' new_state = Inr (None, new_state) \<and>
   (\<exists>obj s'. watchFile example_env ''/tmp/f'' new_state =
        Inr (Some (obj, \<lparr>mtime = 0, size = 3\<rparr>), s') \<and>
      watchFiles s' = [''/tmp/f'' \<mapsto> obj] \<and> modified obj = 0 \<and> expires obj = 0)"
  using watchFile_result
      [where e = example_env and p = "''/tmp/other''" and s = new_state]
    watchFile_result
      [where e = example_env and p = "''/tmp/f''" and s = new_state
         and st = "\<lparr>mtime = 0, size = 3\<rparr>"]
  by (simp add: example_env_def new_state_def new_response_def)

text \<open>
  Claim C4 as stated fails where the path was watched while it existed: once the file is
  gone, \<^verbatim>\<open>watchFile\<close> returns its failure value and the cache still has the entry.
\<close>

theorem watchFile_counterexample:
  "(case watchFile example_env ''/tmp/f'' new_state of
      Inl err \<Rightarrow> False
    | Inr (w, s) \<Rightarrow>
        watchFile (example_env\<lparr>fs := Map.empty\<rparr>) ''/tmp/f'' s = Inr (None, s) \<and>
        watchFiles s ''/tmp/f'' \<noteq> None)"
  by (simp add: watchFile_def existsSync_def lstatSync_def Let_def example_env_def
      new_state_def)


subsection \<open>A missing or unreadable If-Modified-Since\<close>

text \<open>
  Claim C5. For every declared Last-Modified value, when the request's If-Modified-Since is
  absent or does not parse to a date, the Last-Modified comparison does not match:
  \<^verbatim>\<open>setLastModifiedDate\<close> returns true (changed; its short-circuit branch is not taken),
  the test of the last-modified branch of \<^verbatim>\<open>end\<close> is false, and the \<^verbatim>\<open>end\<close>
  wrapper of either source file answers 304 exactly when its ETag matches If-None-Match.
\<close>

theorem lastModified_never_matches:
  assumes "Date_of_string e (if_modified_since req) = None"
  shows "fst (setLastModifiedDate e req d r) = True \<and>
         \<not> lastModified_matches e req lm \<and>
         (case end_hook e req c data r of
            Inl err \<Rightarrow> True
          | Inr (c', r', answered) \<Rightarrow>
              answered = (truthy (c_etag c') \<and> if_none_match req = c_etag c')) \<and>
         (case end_hook_index e req c data r of
            Inl err \<Rightarrow> True
          | Inr (c', r', answered) \<Rightarrow>
              answered = (truthy (c_etag c') \<and> if_none_match req = c_etag c'))"
proof -
  have lm: "\<not> lastModified_matches e req x" for x
    using assms by (simp add: lastModified_matches_def)
  have "fst (setLastModifiedDate e req d r) = True"
    using assms by (simp add: setLastModifiedDate_def Let_def)
  moreover have "case end_hook e req c data r of
            Inl err \<Rightarrow> True
          | Inr (c', r', answered) \<Rightarrow>
              answered = (truthy (c_etag c') \<and> if_none_match req = c_etag c')"
    by (auto simp: end_hook_def Let_def lm split: option.splits sum.splits)
  moreover have "case end_hook_index e req c data r of
            Inl err \<Rightarrow> True
          | Inr (c', r', answered) \<Rightarrow>
              answered = (truthy (c_etag c') \<and> if_none_match req = c_etag c')"
    by (auto simp: end_hook_index_def Let_def lm split: option.splits sum.splits)
  ultimately show ?thesis
    using lm by blast
qed

text \<open>
  A request whose If-Modified-Since does not parse, against a response that declared a
  Last-Modified of 0 ms and nothing else: no short-circuit, and \<^verbatim>\<open>end\<close> goes on to the
  original method.
\<close>

theorem lastModified_never_matches_witness:
  "Date_of_string example_env (Some ''yesterday'') = None \<and>
   fst (setLastModifiedDate example_env
          \<lparr>if_none_match = None, if_modified_since = Some ''yesterday''\<rparr> (Some 0) new_response) \<and>
   end_hook example_env \<lparr>if_none_match = None, if_modified_since = Some ''yesterday''\<rparr>
      \<lparr>c_etag = None, c_lastModified = Some ''t0'', c_hash = None, c_endCalled = False\<rparr>
      (Some ''body'') new_response =
     Inr (\<lparr>c_etag = None, c_lastModified = Some ''t0'', c_hash = None, c_endCalled = True\<rparr>,
          new_response, False)"
  using lastModified_never_matches
      [where e = example_env
         and req = "\<lparr>if_none_match = None, if_modified_since = Some ''yesterday''\<rparr>"
         and d = "Some 0" and r = new_response and lm = "Some ''t0''"
         and c = "\<lparr>c_etag = None, c_lastModified = Some ''t0'', c_hash = None,
                    c_endCalled = False\<rparr>"
         and data = "Some ''body''"]
  by (simp add: example_env_def end_hook_def)

subsection \<open>The refresh of an expired entry\<close>

text \<open>
  Claim C6 says that \<^verbatim>\<open>isChanged\<close> on an expired entry re-stats the file exactly once and
  that the refreshed entry expires strictly later than the one before, for a max-age other
  than zero. On the input of C3 (max-age 1000 ms, file last modified at 0 ms, clock at
  5000 ms) the refresh that \<^verbatim>\<open>isChanged\<close> makes, deleting the entry and watching the file
  again, gives an entry with the same expiry as before, which has passed already.
\<close>

theorem refresh_keeps_expiry:
  "(case watchFile example_env ''/tmp/f''
           ((watched 1000)\<lparr>ticks := Suc (ticks (watched 1000)),
                            watchFiles := (watchFiles (watched 1000))(''/tmp/f'' := None)\<rparr>) of
      Inl err \<Rightarrow> False
    | Inr (w, s') \<Rightarrow>
        map_option expires (watchFiles s' ''/tmp/f'') =
          map_option expires (watchFiles (watched 1000) ''/tmp/f'') \<and>
        map_option expires (watchFiles s' ''/tmp/f'') = Some 1000 \<and>
        1000 < clock example_env (ticks s'))"
  by (simp add: watched_eq watchFile_def existsSync_def lstatSync_def Let_def example_env_def
      new_response_def)

subsection \<open>Calling autoEtag twice\<close>

text \<open>
  Claim C7. Calling \<^verbatim>\<open>autoEtag\<close> twice leaves the response as one call leaves it: the
  second call changes nothing, so that one pair of wrappers is installed, not two.
\<close>

theorem autoEtag_idempotent:
  "autoEtag (autoEtag r) = autoEtag r \<and>
   autoEtagSet (autoEtag r) \<and>
   length (hooks (autoEtag (autoEtag r))) =
     (if autoEtagSet r then length (hooks r) else Suc (length (hooks r)))"
  by (simp add: autoEtag_def Let_def)

subsection \<open>The Cache-Control header\<close>

text \<open>
  Claim C8 says that \<^verbatim>\<open>setCacheControl\<close> sets the Cache-Control header to the keywords
  followed by \<^verbatim>\<open>max-age=<age>\<close>, the stored max-age standing in when the age is left
  out. The code does not for an age of 0: \<^verbatim>\<open>age || res._dynMaxAge\<close> takes the 0 that
  was passed for a missing argument, and the header carries the stored max-age. With a stored
  max-age of 5000, \<^verbatim>\<open>setCacheControl(0, ["public"])\<close> gives
  \<^verbatim>\<open>public, max-age=5000\<close>, where the keywords followed by the age that was passed are
  \<^verbatim>\<open>public, max-age=0\<close>.
\<close>

theorem setCacheControl_age_zero:
  "headers (snd (setCacheControl (Some 0) (Some k) r)) ''cache-control'' =
     Some (join '', '' (k @ [''max-age='' @ Number_toString (dynMaxAge r)])) \<and>
   headers (snd (setCacheControl (Some 0) (Some [''public'']) (setMaxAge 5000 new_response)))
      ''cache-control'' = Some ''public, max-age=5000'' \<and>
   join '', '' ([''public''] @ [''max-age='' @ Number_toString 0]) = ''public, max-age=0''"
  by (simp add: setCacheControl_def setMaxAge_def new_response_def setHeader_def
      Number_toString_0 Number_toString_5000 Let_def)

subsection \<open>The Expires header\<close>

text \<open>
  Claim C9 says that \<^verbatim>\<open>setExpires\<close> without a date writes the current time plus the
  stored max-age as an HTTP date. The code writes \<^verbatim>\<open>Invalid Date\<close>, whatever the clock
  and the max-age are: \<^verbatim>\<open>new Date(undefined)\<close> is an object, hence truthy, and the
  alternative after \<^verbatim>\<open>||\<close> is never evaluated.
\<close>

theorem setExpires_no_date:
  "headers (setExpires e now None r) ''expires'' = Some ''Invalid Date''"
  by (simp add: setExpires_def setHeader_def truthy_Date_def)

subsection \<open>Ending without a chunk\<close>

text \<open>
  Claim C10. On a response with no validator declared, after \<^verbatim>\<open>autoEtag\<close> and any
  number of writes, an \<^verbatim>\<open>end\<close> without data (or with an empty string) sets no ETag
  header and answers no 304, whatever the request's If-None-Match is: the status is as
  before, the writes and the \<^verbatim>\<open>end\<close> reach the original methods, and in the newer file
  the headers are as before (in \<^verbatim>\<open>index.js\<close> only Cache-Control is added). The digest
  is computed, and compared, only inside the branch that needs the chunk.
\<close>

theorem no_etag_without_final_chunk:
  assumes "hooks r0 = []" and "\<not> autoEtagSet r0"
    and "\<not> truthy (headers r0 ''etag'')" and "\<not> truthy (headers r0 ''last-modified'')"
    and "\<not> truthy data"
  shows "\<exists>r2 r3 r4. res_writes (map Some chunks) (autoEtag r0) = Inr r2 \<and>
           res_end e req data r2 = Inr r3 \<and>
           headers r3 = headers r0 \<and> statusCode r3 = statusCode r0 \<and>
           wire r3 = wire r0 @ map (Write \<circ> Some) chunks @ [End data] \<and>
           res_end_index e req data r2 = Inr r4 \<and>
           headers r4 = (headers r0)(''cache-control'' \<mapsto> cache_control_304) \<and>
           statusCode r4 = statusCode r0 \<and>
           wire r4 = wire r0 @ map (Write \<circ> Some) chunks @ [End data]"
proof -
  let ?c = "\<lparr>c_etag = headers r0 ''etag'', c_lastModified = headers r0 ''last-modified'',
             c_hash = Some (Open []), c_endCalled = False\<rparr>"
  have a: "autoEtag r0 = r0\<lparr>hooks := [?c], autoEtagSet := True\<rparr>"
    using assms by (simp add: autoEtag_def Let_def)
  have w: "res_writes (map Some chunks) (autoEtag r0) =
      Inr (r0\<lparr>hooks := [?c\<lparr>c_hash := Some (Open (concat chunks))\<rparr>], autoEtagSet := True,
              wire := wire r0 @ map (Write \<circ> Some) chunks\<rparr>)"
    using res_writes_open[of "autoEtag r0" ?c "[]" chunks] by (simp add: a)
  show ?thesis
    using assms(3-5)
    by (simp add: w res_end_def res_end_index_def end_hook_def end_hook_index_def Let_def
        lastModified_matches_def setHeader_def)
qed

text \<open>
  A body written in one chunk and ended without data, for a request whose If-None-Match is
  the digest of that body: the response goes out with status 200 and without an ETag.
\<close>

theorem no_etag_without_final_chunk_witness:
  "\<exists>r2 r3. res_writes [Some ''abc''] (autoEtag new_response) = Inr r2 \<and>
     res_end example_env \<lparr>if_none_match = Some (md5hex example_env ''abc''),
                           if_modified_since = None\<rparr> None r2 = Inr r3 \<and>
     headers r3 ''etag'' = None \<and> statusCode r3 = 200 \<and>
     wire r3 = [Write (Some ''abc''), End None]"
  using no_etag_without_final_chunk
      [where ?r0.0 = new_response and data = None and chunks = "[''abc'']"
         and e = example_env
         and req = "\<lparr>if_none_match = Some (md5hex example_env ''abc''),
                      if_modified_since = None\<rparr>"]
  by (auto simp: new_response_def)


end
